theory Spec2Isabelle
  imports Main "HOL-Library.Multiset"
begin

section \<open>Data model\<close>

text \<open>
  One row of the frame returned by \<open>get_player_games\<close>. The columns are
  \<open>winner\<close>, \<open>status\<close>, \<open>opening\<close>, \<open>variation\<close> and \<open>moves\<close>; a cell that
  pandas shows as NaN is \<open>None\<close>. The frame itself is the list of its rows, in order,
  with the default index \<open>0, 1, ..., n - 1\<close> that \<open>pd.DataFrame\<close> gives it.
  The column \<open>opening\<close> is the field \<open>opening_col\<close> (\<open>opening\<close> is a reserved word).
\<close>

record game =
  winner :: "string option"
  status :: "string option"
  opening_col :: "string option"
  variation :: "string option"
  moves :: "string list"

section \<open>Python list slicing\<close>

text \<open>
  \<open>xs[start:stop:step]\<close> for non-negative bounds and a positive step: both bounds are
  clipped to the length, the number of items is \<open>(stop - start - 1) // step + 1\<close> when
  the clipped range is not empty, and item \<open>j\<close> is \<open>xs[start + j * step]\<close>.
\<close>

definition slice :: "nat \<Rightarrow> nat \<Rightarrow> nat \<Rightarrow> 'a list \<Rightarrow> 'a list" where
  "slice start stop step xs =
     (let lo = min start (length xs);
          hi = min stop (length xs);
          n = (if lo < hi then (hi - lo - 1) div step + 1 else 0)
      in map (\<lambda>j. xs ! (lo + j * step)) [0..<n])"

section \<open>itertools.permutations\<close>

text \<open>
  \<open>itertools.permutations(moves)\<close> yields every full-length arrangement of the
  positions of \<open>moves\<close>, in lexicographic order of the positions: the first item is
  chosen by ascending index, then come the arrangements of what is left. Equal moves at
  different positions give equal arrangements more than once.
\<close>

fun permutations_upto :: "nat \<Rightarrow> 'a list \<Rightarrow> 'a list list" where
  "permutations_upto 0 xs = [[]]"
| "permutations_upto (Suc n) xs =
     concat (map (\<lambda>i. map ((#) (xs ! i)) (permutations_upto n (take i xs @ drop (Suc i) xs)))
                 [0..<length xs])"

definition permutations :: "'a list \<Rightarrow> 'a list list" where
  "permutations xs = permutations_upto (length xs) xs"

text \<open>
  The local variable \<open>moves\<close> of \<open>given_move_responses\<close> is rebound either to the
  iterator \<open>itertools.permutations(moves)\<close> or to the list \<open>[moves]\<close>. A \<open>for\<close> loop
  over a list leaves the list as it is; a \<open>for\<close> loop over an iterator leaves it
  exhausted, so a second loop over the same iterator visits nothing.
\<close>

datatype 'a iterable = ListObj "'a list" | Iterator "'a list"

fun for_items :: "'a iterable \<Rightarrow> 'a list \<times> 'a iterable" where
  "for_items (ListObj xs) = (xs, ListObj xs)"
| "for_items (Iterator xs) = (xs, Iterator [])"

section \<open>The move-sequence matcher\<close>

text \<open>The three comparisons of \<open>given_move_responses\<close>, each the body of one lambda.\<close>

definition white_hit :: "string list \<Rightarrow> string list \<Rightarrow> bool" where
  "white_hit item x \<longleftrightarrow> slice 0 (2 * length item) 2 x = item"

definition black_hit :: "string list \<Rightarrow> string list \<Rightarrow> bool" where
  "black_hit item x \<longleftrightarrow> slice 1 (2 * length item + 1) 2 x = item"

definition prefix_hit :: "string list \<Rightarrow> string list \<Rightarrow> bool" where
  "prefix_hit item x \<longleftrightarrow> slice 0 (length item) 1 x = item"

text \<open>
  \<open>df.moves.apply(f)\<close> is the column of the values of \<open>f\<close>; \<open>mask += series\<close> adds the
  booleans to the counters position by position (both have the default index);
  \<open>df[mask.astype(bool)]\<close> keeps the rows whose counter is not zero. The counters are
  unbounded integers here: a counter grows by at most one for each item of the loop.
\<close>

definition moves_apply :: "(string list \<Rightarrow> bool) \<Rightarrow> game list \<Rightarrow> bool list" where
  "moves_apply f df = map (\<lambda>g. f (moves g)) df"

definition mask_add :: "int list \<Rightarrow> bool list \<Rightarrow> int list" where
  "mask_add msk series = map (\<lambda>(m, b). m + of_bool b) (zip msk series)"

definition mask_loop ::
  "(string list \<Rightarrow> string list \<Rightarrow> bool) \<Rightarrow> game list \<Rightarrow> string list iterable \<Rightarrow> int list
     \<Rightarrow> int list \<times> string list iterable" where
  "mask_loop hit df its msk =
     (case for_items its of
        (items, its') \<Rightarrow> (foldl (\<lambda>m item. mask_add m (moves_apply (hit item) df)) msk items, its'))"

definition boolean_index :: "game list \<Rightarrow> int list \<Rightarrow> game list" where
  "boolean_index df msk = map fst (filter (\<lambda>(g, m). m \<noteq> 0) (zip df msk))"

text \<open>
  \<open>given_move_responses(df, moves, color, shuffle)\<close>. The argument \<open>color\<close> is a
  string or Python's \<open>None\<close>. The test for white is an \<open>if\<close> of its own; the test for
  black is a second \<open>if\<close> with the \<open>else\<close> branch.
\<close>

definition given_move_responses ::
  "game list \<Rightarrow> string list \<Rightarrow> string option \<Rightarrow> bool \<Rightarrow> game list" where
  "given_move_responses df mvs color shuffle =
     (let its0 = (if shuffle then Iterator (permutations mvs) else ListObj [mvs]);
          mask0 = replicate (length df) 0;
          (mask1, its1) = (if color = Some ''white'' then mask_loop white_hit df its0 mask0
                           else (mask0, its0));
          (mask2, its2) = (if color = Some ''black'' then mask_loop black_hit df its1 mask1
                           else mask_loop prefix_hit df its1 mask1)
      in boolean_index df mask2)"

section \<open>The game importer\<close>

text \<open>
  A raw record as \<open>export_by_player\<close> returns it: a dictionary in which a key may be
  missing. \<open>raw_opening\<close> is \<open>None\<close> when the key \<open>opening\<close> is missing, \<open>Some None\<close>
  when the nested dictionary has no \<open>name\<close>, and \<open>Some (Some s)\<close> when its name is
  \<open>s\<close>. The other keys of a record are dropped by the column selection and are left out.
\<close>

record raw_game =
  raw_winner :: "string option"
  raw_status :: "string option"
  raw_moves :: "string option"
  raw_opening :: "string option option"

datatype error = KeyError | AttributeError

text \<open>
  The two regular expressions of \<open>str.extract\<close>, which searches like \<open>re.search\<close>:
  the leftmost position where the pattern matches, and there the match that the greedy
  \<open>.*\<close> reaches first when it gives characters back one at a time. The dot matches every
  character but the line feed. \<open>match_dots_colon\<close> is the pattern \<open>(.*)\:\<close> tried at
  the start of its argument, with the group as result.
\<close>

definition line_feed :: char where
  "line_feed = CHR 0x0A"

fun match_dots_colon :: "string \<Rightarrow> string option" where
  "match_dots_colon [] = None"
| "match_dots_colon (c # cs) =
     (if c = line_feed then None
      else case match_dots_colon cs of
             Some grp \<Rightarrow> Some (c # grp)
           | None \<Rightarrow> if c = CHR '':'' then Some [] else None)"

fun extract_before_colon :: "string \<Rightarrow> string option" where
  "extract_before_colon [] = None"
| "extract_before_colon (c # cs) =
     (case match_dots_colon (c # cs) of
        Some grp \<Rightarrow> Some grp
      | None \<Rightarrow> extract_before_colon cs)"

fun extract_after_colon :: "string \<Rightarrow> string option" where
  "extract_after_colon [] = None"
| "extract_after_colon (c # cs) =
     (if c = CHR '':'' then Some (takeWhile (\<lambda>d. d \<noteq> line_feed) cs)
      else extract_after_colon cs)"

text \<open>
  \<open>x.split()\<close>: the maximal runs of characters that are not white space, in order.
  A character is a code point below 256; the white space among them (\<open>str.isspace\<close>)
  is the blank, 0x09 to 0x0D, 0x1C to 0x1F, 0x85 and 0xA0.
\<close>

definition is_space :: "char \<Rightarrow> bool" where
  "is_space c \<longleftrightarrow> c \<in> set [CHR '' '', CHR 0x09, CHR 0x0A, CHR 0x0B, CHR 0x0C, CHR 0x0D,
                              CHR 0x1C, CHR 0x1D, CHR 0x1E, CHR 0x1F, CHR 0x85, CHR 0xA0]"

fun split_from :: "string \<Rightarrow> string \<Rightarrow> string list" where
  "split_from cur [] = (if cur = [] then [] else [cur])"
| "split_from cur (c # cs) =
     (if is_space c then (if cur = [] then split_from [] cs else cur # split_from [] cs)
      else split_from (cur @ [c]) cs)"

definition split :: "string \<Rightarrow> string list" where
  "split s = split_from [] s"

text \<open>
  The column \<open>name\<close> of a row comes from the nested dictionary that
  \<open>{**x, **x.pop("opening")}\<close> merges into the record.
\<close>

definition name_of :: "raw_game \<Rightarrow> string option" where
  "name_of x = (case raw_opening x of None \<Rightarrow> None | Some n \<Rightarrow> n)"

definition in_columns :: "(raw_game \<Rightarrow> 'a option) \<Rightarrow> raw_game list \<Rightarrow> bool" where
  "in_columns key games_list = list_ex (\<lambda>x. key x \<noteq> None) games_list"

definition normalise :: "raw_game \<Rightarrow> string \<Rightarrow> game" where
  "normalise x mv =
     (let name = name_of x;
          opening_found = Option.bind name extract_before_colon;
          variation_found = Option.bind name extract_after_colon
      in \<lparr>winner = raw_winner x,
          status = raw_status x,
          opening_col = (if opening_found = None then name else opening_found),
          variation = variation_found,
          moves = split mv\<rparr>)"

fun normalise_all :: "raw_game list \<Rightarrow> error + game list" where
  "normalise_all [] = Inr []"
| "normalise_all (x # xs) =
     (case raw_moves x of
        None \<Rightarrow> Inl AttributeError
      | Some mv \<Rightarrow> (case normalise_all xs of
                     Inl e \<Rightarrow> Inl e
                   | Inr gs \<Rightarrow> Inr (normalise x mv # gs)))"

text \<open>
  \<open>get_player_games\<close>, as a function of the list that the server returned.
  \<^item> \<open>x.pop("opening")\<close> raises \<open>KeyError\<close> for a record without that key.
  \<^item> \<open>pd.DataFrame\<close> makes one column for every key that some record has; a frame built
    from the empty list has no columns.
  \<^item> \<open>games_df[["winner", "status", "name", "moves"]]\<close> raises \<open>KeyError\<close> when one of
    the four columns is not among the columns of the frame.
  \<^item> the two \<open>str.extract\<close> calls give NaN where the name is NaN or the pattern is not
    found; the rows whose \<open>opening\<close> is NaN get the name as opening (the assignment
    \<open>games_df.opening[no_variation_mask] = ...\<close> writes into the frame, as it does in
    pandas without copy-on-write).
  \<^item> \<open>x.split()\<close> raises \<open>AttributeError\<close> on a NaN cell of \<open>moves\<close>.
\<close>

definition get_player_games :: "raw_game list \<Rightarrow> error + game list" where
  "get_player_games games_list =
     (if list_ex (\<lambda>x. raw_opening x = None) games_list then Inl KeyError
      else if \<not> (in_columns raw_winner games_list \<and> in_columns raw_status games_list \<and>
                  in_columns name_of games_list \<and> in_columns raw_moves games_list)
           then Inl KeyError
      else normalise_all games_list)"

section \<open>The two frequency reports\<close>

text \<open>
  \<open>value_counts()\<close> drops the NaN cells, counts each distinct value and lists the
  values by descending count. Values with the same count are kept here in the order of
  their first occurrence.
\<close>

definition value_counts :: "'a option list \<Rightarrow> ('a \<times> nat) list" where
  "value_counts col =
     (let vals = List.map_filter id col;
          uniq = rev (remdups (rev vals))
      in sort_key (\<lambda>(v, n). - int n) (map (\<lambda>v. (v, count_list vals v)) uniq))"

definition opposite_color :: "string \<Rightarrow> string" where
  "opposite_color color = (if color = ''black'' then ''white'' else ''black'')"

definition not_win_mask :: "string \<Rightarrow> game list \<Rightarrow> bool list" where
  "not_win_mask color df =
     map (\<lambda>g. winner g = Some (opposite_color color) \<or> winner g = None) df"

definition select_rows :: "game list \<Rightarrow> bool list \<Rightarrow> game list" where
  "select_rows df msk = map fst (filter snd (zip df msk))"

definition opening_report :: "game list \<Rightarrow> (string \<times> nat) list" where
  "opening_report df = value_counts (map opening_col df)"

definition status_report :: "string \<Rightarrow> game list \<Rightarrow> (string \<times> nat) list" where
  "status_report color df = value_counts (map status (select_rows df (not_win_mask color df)))"

section \<open>Facts about the matcher\<close>

subsection \<open>The counters\<close>

lemma mask_add_map: "mask_add (map f df) (map h df) = map (\<lambda>g. f g + of_bool (h g)) df"
  unfolding mask_add_def by (induction df) auto

lemma foldl_mask_add:
  "foldl (\<lambda>m item. mask_add m (moves_apply (hit item) df)) (map f df) items
   = map (\<lambda>g. f g + int (length (filter (\<lambda>item. hit item (moves g)) items))) df"
  by (induction items arbitrary: f) (auto simp: moves_apply_def mask_add_map)

lemma boolean_index_map: "boolean_index df (map f df) = filter (\<lambda>g. f g \<noteq> 0) df"
  unfolding boolean_index_def by (induction df) auto

lemma mask_loop_map:
  "mask_loop hit df its (map f df) =
     (map (\<lambda>g. f g + int (length (filter (\<lambda>item. hit item (moves g)) (fst (for_items its))))) df,
      snd (for_items its))"
  unfolding mask_loop_def by (simp add: foldl_mask_add split: prod.splits)

lemma replicate_zero_map: "replicate (length df) (0::int) = map (\<lambda>g. 0) df"
  by (simp add: map_replicate_const)

text \<open>
  With \<open>shuffle\<close> on, the candidates are an iterator: the loop that runs first uses it
  up, so for white only the even positions are compared.
\<close>

lemma gmr_shuffle:
  "given_move_responses df mvs color True =
     filter (\<lambda>g. \<exists>c\<in>set (permutations mvs).
                 (if color = Some ''white'' then white_hit c (moves g)
                  else if color = Some ''black'' then black_hit c (moves g)
                  else prefix_hit c (moves g))) df"
proof -
  consider "color = Some ''white''" | "color = Some ''black''"
    | "color \<noteq> Some ''white''" "color \<noteq> Some ''black''" by blast
  then show ?thesis
  proof cases
    case 1
    then show ?thesis
      unfolding given_move_responses_def Let_def replicate_zero_map
      by (simp add: mask_loop_map boolean_index_map filter_empty_conv)
  next
    case 2
    then show ?thesis
      unfolding given_move_responses_def Let_def replicate_zero_map
      by (simp add: mask_loop_map boolean_index_map filter_empty_conv)
  next
    case 3
    then show ?thesis
      unfolding given_move_responses_def Let_def replicate_zero_map
      by (simp add: mask_loop_map boolean_index_map filter_empty_conv)
  qed
qed

text \<open>
  With \<open>shuffle\<close> off, the candidates are the list \<open>[moves]\<close>, which both loops visit:
  for white the \<open>else\<close> branch of the second \<open>if\<close> runs as well.
\<close>

lemma gmr_no_shuffle:
  "given_move_responses df mvs color False =
     filter (\<lambda>g. (color = Some ''white'' \<and> white_hit mvs (moves g)) \<or>
                 (if color = Some ''black'' then black_hit mvs (moves g)
                  else prefix_hit mvs (moves g))) df"
proof -
  consider "color = Some ''white''" | "color = Some ''black''"
    | "color \<noteq> Some ''white''" "color \<noteq> Some ''black''" by blast
  then show ?thesis
  proof cases
    case 1
    then show ?thesis
      unfolding given_move_responses_def Let_def replicate_zero_map
      by (auto simp add: mask_loop_map boolean_index_map intro!: filter_cong)
  next
    case 2
    then show ?thesis
      unfolding given_move_responses_def Let_def replicate_zero_map
      by (simp add: mask_loop_map boolean_index_map)
  next
    case 3
    then show ?thesis
      unfolding given_move_responses_def Let_def replicate_zero_map
      by (simp add: mask_loop_map boolean_index_map)
  qed
qed

subsection \<open>The slices\<close>

lemma even_count:
  "(if 0 < min (2 * n) m then (min (2 * n) m - 0 - 1) div 2 + 1 else 0) = min n ((m + 1) div 2)"
  for n m :: nat
  by (cases "2 * n \<le> m") (simp_all add: min_def, presburger+)

lemma odd_count:
  "(if min 1 m < min (2 * n + 1) m then (min (2 * n + 1) m - min 1 m - 1) div 2 + 1 else 0)
     = min n (m div 2)"
  for n m :: nat
  by (cases "2 * n + 1 \<le> m"; cases "m = 0") (simp_all add: min_def, presburger+)

lemma slice_prefix: "slice 0 n 1 x = take n x"
proof -
  have "slice 0 n 1 x = map (\<lambda>j. x ! j) [0..<min n (length x)]"
    unfolding slice_def Let_def by (cases "min n (length x)") simp_all
  also have "\<dots> = take n x"
    by (simp add: list_eq_iff_nth_eq)
  finally show ?thesis .
qed

lemma slice_even_map:
  "slice 0 (2 * n) 2 x = map (\<lambda>k. x ! (2 * k)) [0..<min n ((length x + 1) div 2)]"
  unfolding slice_def Let_def by (simp only: min_0L even_count) (simp add: mult.commute)

lemma slice_odd_map:
  "slice 1 (2 * n + 1) 2 x = map (\<lambda>k. x ! (2 * k + 1)) [0..<min n (length x div 2)]"
proof -
  have lo: "min 1 (length x) + k * 2 = 2 * k + 1" if "k < min n (length x div 2)" for k
    using that by (simp add: min_def) presburger
  show ?thesis
    unfolding slice_def Let_def by (simp only: odd_count) (simp add: lo del: One_nat_def)
qed

subsection \<open>The candidates\<close>

lemma mset_remove_nth:
  "i < length xs \<Longrightarrow> add_mset (xs ! i) (mset (take i xs @ drop (Suc i) xs)) = mset xs"
proof -
  assume "i < length xs"
  then have "xs = take i xs @ xs ! i # drop (Suc i) xs"
    by (rule id_take_nth_drop)
  then have "mset xs = mset (take i xs @ xs ! i # drop (Suc i) xs)"
    by simp
  then show ?thesis by simp
qed

lemma set_permutations_upto:
  "length xs = n \<Longrightarrow> set (permutations_upto n xs) = {ys. mset ys = mset xs}"
proof (induction n arbitrary: xs)
  case 0
  then show ?case by simp
next
  case (Suc n)
  have len: "length (take i xs @ drop (Suc i) xs) = n" if "i < length xs" for i
    using that Suc.prems by simp
  show ?case
  proof (intro set_eqI iffI)
    fix ys
    assume "ys \<in> set (permutations_upto (Suc n) xs)"
    then obtain i zs where i: "i < length xs" and ys: "ys = xs ! i # zs"
      and zs: "zs \<in> set (permutations_upto n (take i xs @ drop (Suc i) xs))"
      by auto
    from zs Suc.IH [OF len [OF i]] have "mset zs = mset (take i xs @ drop (Suc i) xs)"
      by simp
    with mset_remove_nth [OF i] ys show "ys \<in> {ys. mset ys = mset xs}"
      by simp
  next
    fix ys
    assume "ys \<in> {ys. mset ys = mset xs}"
    then have eq: "mset ys = mset xs" by simp
    then have "length ys = Suc n"
      using Suc.prems by (metis size_mset)
    then obtain y zs where ys: "ys = y # zs"
      by (cases ys) auto
    with eq have "y \<in> set xs"
      by (metis list.set_intros(1) set_mset_mset)
    then obtain i where i: "i < length xs" and y: "xs ! i = y"
      by (auto simp: in_set_conv_nth)
    from eq ys have "add_mset y (mset zs) = mset xs" by simp
    with mset_remove_nth [OF i] y have "mset zs = mset (take i xs @ drop (Suc i) xs)"
      by (metis add_mset_remove_trivial)
    with Suc.IH [OF len [OF i]] have "zs \<in> set (permutations_upto n (take i xs @ drop (Suc i) xs))"
      by simp
    with i y ys show "ys \<in> set (permutations_upto (Suc n) xs)"
      by auto
  qed
qed

lemma set_permutations: "set (permutations xs) = {ys. mset ys = mset xs}"
  unfolding permutations_def by (rule set_permutations_upto) simp

subsection \<open>The comparisons, position by position\<close>

lemma map_upt_eq_iff: "map f [0..<m] = c \<longleftrightarrow> length c = m \<and> (\<forall>k<m. f k = c ! k)"
  by (auto simp: list_eq_iff_nth_eq)

lemma black_hit_nth:
  "black_hit c x \<longleftrightarrow> 2 * length c \<le> length x \<and> (\<forall>k<length c. x ! (2 * k + 1) = c ! k)"
proof -
  have "length c = min (length c) (length x div 2) \<longleftrightarrow> 2 * length c \<le> length x"
    by (simp add: min_def) presburger
  then show ?thesis
    unfolding black_hit_def slice_odd_map map_upt_eq_iff by metis
qed

lemma white_hit_nth:
  "white_hit c x \<longleftrightarrow> 2 * length c \<le> length x + 1 \<and> (\<forall>k<length c. x ! (2 * k) = c ! k)"
proof -
  have "length c = min (length c) ((length x + 1) div 2) \<longleftrightarrow> 2 * length c \<le> length x + 1"
    by (simp add: min_def) presburger
  then show ?thesis
    unfolding white_hit_def slice_even_map map_upt_eq_iff by metis
qed

lemma prefix_hit_take: "prefix_hit c x \<longleftrightarrow> take (length c) x = c"
  unfolding prefix_hit_def slice_prefix ..

lemma candidate_length:
  "(if shuffle then mset c = mset mvs else c = mvs) \<Longrightarrow> length c = length mvs"
  by (auto split: if_splits dest: mset_eq_length)

subsection \<open>The result as a filter\<close>

lemma gmr_black:
  "given_move_responses df mvs (Some ''black'') shuffle =
     filter (\<lambda>g. \<exists>c. (if shuffle then mset c = mset mvs else c = mvs) \<and>
                     black_hit c (moves g)) df"
proof (cases shuffle)
  case True
  then have "shuffle = True" by simp
  then show ?thesis
    by (simp add: gmr_shuffle set_permutations Bex_def)
next
  case False
  then have "shuffle = False" by simp
  then show ?thesis
    by (simp add: gmr_no_shuffle)
qed

lemma gmr_other:
  assumes "color \<noteq> Some ''white''" and "color \<noteq> Some ''black''"
  shows "given_move_responses df mvs color shuffle =
     filter (\<lambda>g. \<exists>c. (if shuffle then mset c = mset mvs else c = mvs) \<and>
                     prefix_hit c (moves g)) df"
proof (cases shuffle)
  case True
  then have "shuffle = True" by simp
  then show ?thesis
    using assms by (simp add: gmr_shuffle set_permutations Bex_def)
next
  case False
  then have "shuffle = False" by simp
  then show ?thesis
    using assms by (simp add: gmr_no_shuffle)
qed

text \<open>
  White with \<open>shuffle\<close> on: a game is kept exactly when white's first plies are a
  rearrangement of the target.
\<close>

lemma gmr_white_shuffle:
  "given_move_responses df mvs (Some ''white'') True =
     filter (\<lambda>g. \<exists>c. mset c = mset mvs \<and> 2 * length mvs \<le> length (moves g) + 1 \<and>
                     (\<forall>k<length mvs. moves g ! (2 * k) = c ! k)) df"
proof -
  have "(\<exists>c. mset c = mset mvs \<and> white_hit c x) \<longleftrightarrow>
        (\<exists>c. mset c = mset mvs \<and> 2 * length mvs \<le> length x + 1 \<and>
             (\<forall>k<length mvs. x ! (2 * k) = c ! k))" for x
    unfolding white_hit_nth by (metis mset_eq_length)
  then show ?thesis
    by (simp add: gmr_shuffle set_permutations Bex_def)
qed

text \<open>
  White with \<open>shuffle\<close> off: a game is kept when white's first plies are the target, and
  also when the first plies of both sides together are the target.
\<close>

lemma gmr_white_no_shuffle:
  "given_move_responses df mvs (Some ''white'') False =
     filter (\<lambda>g. white_hit mvs (moves g) \<or> take (length mvs) (moves g) = mvs) df"
  by (simp add: gmr_no_shuffle prefix_hit_take)

section \<open>Facts about the importer\<close>

lemma match_dots_colon_no_colon: "CHR '':'' \<notin> set s \<Longrightarrow> match_dots_colon s = None"
  by (induction s) auto





text \<open>
  A name on one line with exactly one colon is split at that colon.
\<close>

lemma match_dots_colon_single:
  assumes "line_feed \<notin> set a" and "CHR '':'' \<notin> set b"
  shows "match_dots_colon (a @ CHR '':'' # b) = Some a"
  using assms(1)
proof (induction a)
  case Nil
  have "CHR '':'' \<noteq> line_feed" by (simp add: line_feed_def)
  then show ?case using assms(2) by (simp add: match_dots_colon_no_colon)
next
  case (Cons x a)
  then show ?case by auto
qed

lemma extract_before_colon_single:
  assumes "line_feed \<notin> set a" and "CHR '':'' \<notin> set b"
  shows "extract_before_colon (a @ CHR '':'' # b) = Some a"
proof (cases a)
  case Nil
  with match_dots_colon_single [OF assms] show ?thesis
    by (simp del: match_dots_colon.simps)
next
  case (Cons x a')
  with match_dots_colon_single [OF assms] show ?thesis
    by (simp del: match_dots_colon.simps)
qed

lemma extract_after_colon_first:
  assumes "CHR '':'' \<notin> set a"
  shows "extract_after_colon (a @ CHR '':'' # b) = Some (takeWhile (\<lambda>d. d \<noteq> line_feed) b)"
  using assms by (induction a) auto

lemma takeWhile_all: "line_feed \<notin> set b \<Longrightarrow> takeWhile (\<lambda>d. d \<noteq> line_feed) b = b"
  by (induction b) auto

lemma single_colon_split:
  assumes "CHR '':'' \<notin> set a" and "CHR '':'' \<notin> set b"
    and "line_feed \<notin> set a" and "line_feed \<notin> set b"
    and "name_of x = Some (a @ CHR '':'' # b)"
  shows "opening_col (normalise x mv) = Some a \<and> variation (normalise x mv) = Some b"
  using assms
  by (simp add: normalise_def extract_before_colon_single extract_after_colon_first takeWhile_all)

section \<open>Facts about the reports\<close>

lemma set_dropna: "set (List.map_filter id col) = {v. Some v \<in> set col}"
  by (induction col) (auto split: option.splits)

lemma count_dropna: "count_list (List.map_filter id col) v = count_list col (Some v)"
  by (induction col) (auto split: option.splits)

lemma count_list_map_filter:
  "count_list (map f xs) y = length (filter (\<lambda>x. f x = y) xs)"
  by (induction xs) auto

lemma count_list_pos: "0 < count_list xs y \<longleftrightarrow> y \<in> set xs"
  by (induction xs) auto

lemma value_counts_set:
  "set (value_counts col) = {(v, count_list col (Some v)) |v. Some v \<in> set col}"
  unfolding value_counts_def Let_def
  by (auto simp: set_dropna count_dropna)

lemma value_counts_distinct: "distinct (map fst (value_counts col))"
proof -
  let ?vals = "List.map_filter id col"
  let ?pairs = "map (\<lambda>v. (v, count_list ?vals v)) (rev (remdups (rev ?vals)))"
  have "mset (value_counts col) = mset ?pairs"
    unfolding value_counts_def Let_def by (rule mset_sort)
  then have "mset (map fst (value_counts col)) = mset (map fst ?pairs)"
    by (metis mset_map)
  moreover have "distinct (map fst ?pairs)"
    by (simp add: comp_def)
  ultimately show ?thesis
    by (metis mset_eq_imp_distinct_iff)
qed

lemma value_counts_descending:
  "sorted_wrt (\<lambda>a b. snd b \<le> snd a) (value_counts col)"
proof -
  let ?key = "\<lambda>(v :: 'a, n :: nat). - int n"
  have "sorted (map ?key (value_counts col))"
    unfolding value_counts_def Let_def by (rule sorted_sort_key)
  then have "sorted_wrt (\<lambda>a b. ?key a \<le> ?key b) (value_counts col)"
    by (simp add: sorted_wrt_map)
  then show ?thesis
    by (rule sorted_wrt_mono_rel [rotated]) (auto split: prod.splits)
qed

lemma value_counts_column:
  "(v, n) \<in> set (value_counts (map f gs)) \<longleftrightarrow>
     n = length (filter (\<lambda>g. f g = Some v) gs) \<and> 0 < n"
proof -
  have "0 < length (filter (\<lambda>g. f g = Some v) gs) \<longleftrightarrow> Some v \<in> set (map f gs)"
    unfolding count_list_map_filter [symmetric] by (rule count_list_pos)
  then show ?thesis
    unfolding value_counts_set by (auto simp: count_list_map_filter)
qed

lemma select_rows_not_win:
  "select_rows df (not_win_mask color df) =
     filter (\<lambda>g. winner g = Some (opposite_color color) \<or> winner g = None) df"
  unfolding select_rows_def not_win_mask_def by (induction df) auto

section \<open>Short games\<close>

text \<open>
  A game of one ply is never kept for a target of two moves, for every colour argument
  and both values of \<open>shuffle\<close>.
\<close>

lemma one_ply_no_hit:
  assumes "length c = 2" and "length x = 1"
  shows "\<not> white_hit c x" and "\<not> black_hit c x" and "\<not> prefix_hit c x"
proof -
  show "\<not> white_hit c x" using assms by (simp add: white_hit_nth)
  show "\<not> black_hit c x" using assms by (simp add: black_hit_nth)
  have "length (take (length c) x) \<noteq> length c" using assms by simp
  then show "\<not> prefix_hit c x" unfolding prefix_hit_take by metis
qed

lemma one_ply_game_never_matches_two:
  assumes "length (moves g) = 1"
  shows "given_move_responses [g] [a, b] color shuffle = []"
proof (cases shuffle)
  case True
  then have s: "shuffle = True" by simp
  have "length c = 2" if "mset c = mset [a, b]" for c
    using mset_eq_length [OF that] by simp
  then show ?thesis
    unfolding s gmr_shuffle using assms
    by (auto simp: set_permutations one_ply_no_hit)
next
  case False
  then have s: "shuffle = False" by simp
  have "length [a, b] = 2" by simp
  from one_ply_no_hit [OF this assms] show ?thesis
    unfolding s gmr_no_shuffle by simp
qed

section \<open>The claims\<close>

text \<open>
  C1. For white, a game is kept if and only if some candidate equals white's first
  plies (positions 0, 2, 4, ...), whatever \<open>shuffle\<close> is; a game whose first plies of
  both sides together equal a candidate, but whose plies at the even positions do not,
  is left out. With \<open>shuffle\<close> off the function does not do that: after the loop for
  white, the \<open>else\<close> branch of the test for black runs too and compares the first plies
  of both sides. The game e4 e5 Nf3 Nc6 has e4, Nf3 at the even positions, which is not
  the target e4, e5, and is kept; with \<open>shuffle\<close> on the same game is left out.
\<close>

theorem white_no_shuffle_keeps_prefix_match:
  "slice 0 (2 * length [''e4'', ''e5'']) 2 [''e4'', ''e5'', ''Nf3'', ''Nc6''] = [''e4'', ''Nf3''] \<and>
   given_move_responses [\<lparr>winner = None, status = None, opening_col = None, variation = None, moves = [''e4'', ''e5'', ''Nf3'', ''Nc6'']\<rparr>] [''e4'', ''e5''] (Some ''white'') False = [\<lparr>winner = None, status = None, opening_col = None, variation = None, moves = [''e4'', ''e5'', ''Nf3'', ''Nc6'']\<rparr>] \<and>
   given_move_responses [\<lparr>winner = None, status = None, opening_col = None, variation = None, moves = [''e4'', ''e5'', ''Nf3'', ''Nc6'']\<rparr>] [''e4'', ''e5''] (Some ''white'') True = []"
  by code_simp

text \<open>
  C2. For a name with at least one colon, \<open>opening\<close> is the text before the first colon
  and \<open>variation\<close> the text after the first colon, so that the two parts split the name
  at that colon. The pattern for the variation stops at the first colon, but the greedy
  \<open>.*\<close> of the pattern for the opening runs to the last one: for the name \<open>A:B:C\<close> the
  opening is \<open>A:B\<close> and the variation is \<open>B:C\<close>.
\<close>

theorem opening_runs_to_last_colon:
  "get_player_games [\<lparr>raw_winner = Some ''white'', raw_status = Some ''mate'', raw_moves = Some ''e4 e5'', raw_opening = Some (Some ''A:B:C'')\<rparr>] =
     Inr [\<lparr>winner = Some ''white'', status = Some ''mate'', opening_col = Some ''A:B'',
           variation = Some ''B:C'', moves = [''e4'', ''e5'']\<rparr>]"
  by code_simp

text \<open>
  C3. For the empty list of raw records the importer returns the empty table and raises
  nothing. The frame built from the empty list has no columns, so the selection of the
  four columns raises \<open>KeyError\<close>.
\<close>

theorem empty_games_list_raises:
  "get_player_games [] = Inl KeyError"
  by (simp add: get_player_games_def in_columns_def)



text \<open>
  C5. For black, a game is kept if and only if some candidate (with \<open>shuffle\<close> any
  rearrangement of the target, otherwise the target itself) equals black's first plies:
  the game has at least \<open>2 * N\<close> plies and the candidate's item \<open>k\<close> is the ply at
  position \<open>2 * k + 1\<close>. The table keeps its order. The game e4 e5 is returned for the
  target e5 with \<open>shuffle\<close> off.
\<close>

theorem black_compares_odd_positions:
  "given_move_responses df mvs (Some ''black'') shuffle =
     filter (\<lambda>g. \<exists>c. (if shuffle then mset c = mset mvs else c = mvs) \<and>
                     2 * length mvs \<le> length (moves g) \<and>
                     (\<forall>k<length mvs. moves g ! (2 * k + 1) = c ! k)) df"
proof -
  have "(if shuffle then mset c = mset mvs else c = mvs) \<and> black_hit c x \<longleftrightarrow>
        (if shuffle then mset c = mset mvs else c = mvs) \<and>
          2 * length mvs \<le> length x \<and> (\<forall>k<length mvs. x ! (2 * k + 1) = c ! k)" for c x
  proof (cases "if shuffle then mset c = mset mvs else c = mvs")
    case True
    then have "length c = length mvs" by (rule candidate_length)
    then show ?thesis by (simp add: black_hit_nth)
  next
    case False
    then show ?thesis by simp
  qed
  then show ?thesis
    unfolding gmr_black by simp
qed

theorem black_compares_odd_positions_witness:
  "given_move_responses [\<lparr>winner = None, status = None, opening_col = None, variation = None, moves = [''e4'', ''e5'']\<rparr>] [''e5''] (Some ''black'') False = [\<lparr>winner = None, status = None, opening_col = None, variation = None, moves = [''e4'', ''e5'']\<rparr>]"
  using black_compares_odd_positions [of "[\<lparr>winner = None, status = None, opening_col = None, variation = None, moves = [''e4'', ''e5'']\<rparr>]" "[''e5'']" False]
  by simp

text \<open>
  C6. For every colour option and every target that is not empty, a game with fewer
  plies than the comparison needs is never kept. For white with \<open>shuffle\<close> off the
  function keeps such a game: two white plies need three plies of the game, the game
  e4 e5 has two, and it is kept for the target e4, e5, because the \<open>else\<close> branch of the
  test for black compares the first two plies of both sides (the defect of C1).
\<close>

theorem white_no_shuffle_keeps_short_game:
  "length [''e4'', ''e5''] < 2 * length [''e4'', ''e5''] - 1 \<and>
   given_move_responses [\<lparr>winner = None, status = None, opening_col = None, variation = None, moves = [''e4'', ''e5'']\<rparr>] [''e4'', ''e5''] (Some ''white'') False = [\<lparr>winner = None, status = None, opening_col = None, variation = None, moves = [''e4'', ''e5'']\<rparr>]"
  by code_simp

text \<open>
  C7. With \<open>shuffle\<close> on, the result does not change when the target is rearranged: for
  every table, every colour argument and every rearrangement \<open>p\<close> of the target, the
  same games are returned, in the same order. They are the games whose plies in the
  compared positions are some rearrangement of the target: the plies at the even
  positions for white, at the odd positions for black, the first plies otherwise. So a
  game whose compared plies are b, a is returned for the target a, b.
\<close>

theorem permuted_target_same_result:
  assumes "mset p = mset mvs"
  shows "given_move_responses df p color True = given_move_responses df mvs color True \<and>
         given_move_responses df p color True =
           filter (\<lambda>g. \<exists>c. mset c = mset mvs \<and>
               (if color = Some ''white''
                then 2 * length mvs \<le> length (moves g) + 1 \<and>
                     (\<forall>k<length mvs. moves g ! (2 * k) = c ! k)
                else if color = Some ''black''
                then 2 * length mvs \<le> length (moves g) \<and>
                     (\<forall>k<length mvs. moves g ! (2 * k + 1) = c ! k)
                else take (length mvs) (moves g) = c)) df"
proof -
  have hit: "mset c = mset mvs \<and>
        (if color = Some ''white'' then white_hit c x
         else if color = Some ''black'' then black_hit c x else prefix_hit c x) \<longleftrightarrow>
      mset c = mset mvs \<and>
        (if color = Some ''white''
         then 2 * length mvs \<le> length x + 1 \<and> (\<forall>k<length mvs. x ! (2 * k) = c ! k)
         else if color = Some ''black''
         then 2 * length mvs \<le> length x \<and> (\<forall>k<length mvs. x ! (2 * k + 1) = c ! k)
         else take (length mvs) x = c)" for c x
  proof (cases "mset c = mset mvs")
    case True
    then have "length c = length mvs" by (rule mset_eq_length)
    then show ?thesis by (simp add: white_hit_nth black_hit_nth prefix_hit_take)
  next
    case False
    then show ?thesis by simp
  qed
  have same: "given_move_responses df p color True = given_move_responses df mvs color True"
    unfolding gmr_shuffle using assms by (simp add: set_permutations)
  have "given_move_responses df mvs color True =
      filter (\<lambda>g. \<exists>c. mset c = mset mvs \<and>
        (if color = Some ''white'' then white_hit c (moves g)
         else if color = Some ''black'' then black_hit c (moves g)
         else prefix_hit c (moves g))) df"
    unfolding gmr_shuffle by (simp add: set_permutations Bex_def)
  with same show ?thesis
    by (simp only: hit)
qed

theorem permuted_target_same_result_witness:
  "mset [''a'', ''b''] = mset [''b'', ''a''] \<and>
   given_move_responses [\<lparr>winner = None, status = None, opening_col = None, variation = None, moves = [''b'', ''a'']\<rparr>] [''a'', ''b''] None True = [\<lparr>winner = None, status = None, opening_col = None, variation = None, moves = [''b'', ''a'']\<rparr>] \<and>
   given_move_responses [\<lparr>winner = None, status = None, opening_col = None, variation = None, moves = [''b'', ''x'', ''a'']\<rparr>] [''a'', ''b''] (Some ''white'') True = [\<lparr>winner = None, status = None, opening_col = None, variation = None, moves = [''b'', ''x'', ''a'']\<rparr>] \<and>
   given_move_responses [\<lparr>winner = None, status = None, opening_col = None, variation = None, moves = [''x'', ''b'', ''y'', ''a'']\<rparr>] [''a'', ''b''] (Some ''black'') True = [\<lparr>winner = None, status = None, opening_col = None, variation = None, moves = [''x'', ''b'', ''y'', ''a'']\<rparr>]"
proof -
  have m: "mset [''a'', ''b''] = mset [''b'', ''a'']"
    by simp
  have n: "given_move_responses [\<lparr>winner = None, status = None, opening_col = None, variation = None, moves = [''b'', ''a'']\<rparr>] [''b'', ''a''] None True = [\<lparr>winner = None, status = None, opening_col = None, variation = None, moves = [''b'', ''a'']\<rparr>]"
    by code_simp
  have w: "given_move_responses [\<lparr>winner = None, status = None, opening_col = None, variation = None, moves = [''b'', ''x'', ''a'']\<rparr>] [''b'', ''a''] (Some ''white'') True = [\<lparr>winner = None, status = None, opening_col = None, variation = None, moves = [''b'', ''x'', ''a'']\<rparr>]"
    by code_simp
  have b: "given_move_responses [\<lparr>winner = None, status = None, opening_col = None, variation = None, moves = [''x'', ''b'', ''y'', ''a'']\<rparr>] [''b'', ''a''] (Some ''black'') True = [\<lparr>winner = None, status = None, opening_col = None, variation = None, moves = [''x'', ''b'', ''y'', ''a'']\<rparr>]"
    by code_simp
  from permuted_target_same_result [OF m, of "[\<lparr>winner = None, status = None, opening_col = None, variation = None, moves = [''b'', ''a'']\<rparr>]" None] n
  have "given_move_responses [\<lparr>winner = None, status = None, opening_col = None, variation = None, moves = [''b'', ''a'']\<rparr>] [''a'', ''b''] None True = [\<lparr>winner = None, status = None, opening_col = None, variation = None, moves = [''b'', ''a'']\<rparr>]"
    by simp
  moreover from permuted_target_same_result [OF m, of "[\<lparr>winner = None, status = None, opening_col = None, variation = None, moves = [''b'', ''x'', ''a'']\<rparr>]" "Some ''white''"] w
  have "given_move_responses [\<lparr>winner = None, status = None, opening_col = None, variation = None, moves = [''b'', ''x'', ''a'']\<rparr>] [''a'', ''b''] (Some ''white'') True = [\<lparr>winner = None, status = None, opening_col = None, variation = None, moves = [''b'', ''x'', ''a'']\<rparr>]"
    by simp
  moreover from permuted_target_same_result [OF m, of "[\<lparr>winner = None, status = None, opening_col = None, variation = None, moves = [''x'', ''b'', ''y'', ''a'']\<rparr>]" "Some ''black''"] b
  have "given_move_responses [\<lparr>winner = None, status = None, opening_col = None, variation = None, moves = [''x'', ''b'', ''y'', ''a'']\<rparr>] [''a'', ''b''] (Some ''black'') True = [\<lparr>winner = None, status = None, opening_col = None, variation = None, moves = [''x'', ''b'', ''y'', ''a'']\<rparr>]"
    by simp
  ultimately show ?thesis using m by simp
qed

text \<open>
  C8. Each of the two reports pairs each distinct value with the number of games of its
  subset that have this value, has no value twice, and lists the pairs by descending
  count. The opening report counts all games. The status report counts the games the
  player did not win: for a player with white the games whose winner is black or absent,
  for a player with black the games whose winner is white or absent.
\<close>

theorem reports_count_and_order:
  "((v, n) \<in> set (opening_report df) \<longleftrightarrow>
      n = length (filter (\<lambda>g. opening_col g = Some v) df) \<and> 0 < n) \<and>
   distinct (map fst (opening_report df)) \<and>
   sorted_wrt (\<lambda>a b. snd b \<le> snd a) (opening_report df) \<and>
   ((s, m) \<in> set (status_report ''white'' df) \<longleftrightarrow>
      m = length (filter (\<lambda>g. status g = Some s \<and>
                             (winner g = Some ''black'' \<or> winner g = None)) df) \<and>
      0 < m) \<and>
   ((s, m) \<in> set (status_report ''black'' df) \<longleftrightarrow>
      m = length (filter (\<lambda>g. status g = Some s \<and>
                             (winner g = Some ''white'' \<or> winner g = None)) df) \<and>
      0 < m) \<and>
   distinct (map fst (status_report color df)) \<and>
   sorted_wrt (\<lambda>a b. snd b \<le> snd a) (status_report color df)"
proof -
  have sub: "filter (\<lambda>g. status g = Some s) (filter (\<lambda>g. winner g = Some w \<or> winner g = None) df) =
        filter (\<lambda>g. status g = Some s \<and> (winner g = Some w \<or> winner g = None)) df" for w
    by (simp add: conj_commute)
  have white: "opposite_color ''white'' = ''black''"
    by (simp add: opposite_color_def)
  have black: "opposite_color ''black'' = ''white''"
    by (simp add: opposite_color_def)
  show ?thesis
    unfolding opening_report_def status_report_def select_rows_not_win white black
    by (simp only: value_counts_column value_counts_distinct value_counts_descending sub)
qed

theorem reports_count_and_order_witness:
  "opening_report 
     [\<lparr>winner = Some ''white'', status = Some ''mate'', opening_col = Some ''A'', variation = None, moves = []\<rparr>,
      \<lparr>winner = Some ''black'', status = Some ''resign'', opening_col = Some ''B'', variation = None, moves = []\<rparr>,
      \<lparr>winner = None, status = Some ''draw'', opening_col = Some ''A'', variation = None, moves = []\<rparr>,
      \<lparr>winner = Some ''white'', status = Some ''mate'', opening_col = Some ''A'', variation = None, moves = []\<rparr>,
      \<lparr>winner = Some ''white'', status = Some ''outoftime'', opening_col = Some ''B'', variation = None, moves = []\<rparr>] = [(''A'', 3), (''B'', 2)] \<and>
   (''A'', 3) \<in> set (opening_report 
     [\<lparr>winner = Some ''white'', status = Some ''mate'', opening_col = Some ''A'', variation = None, moves = []\<rparr>,
      \<lparr>winner = Some ''black'', status = Some ''resign'', opening_col = Some ''B'', variation = None, moves = []\<rparr>,
      \<lparr>winner = None, status = Some ''draw'', opening_col = Some ''A'', variation = None, moves = []\<rparr>,
      \<lparr>winner = Some ''white'', status = Some ''mate'', opening_col = Some ''A'', variation = None, moves = []\<rparr>,
      \<lparr>winner = Some ''white'', status = Some ''outoftime'', opening_col = Some ''B'', variation = None, moves = []\<rparr>]) \<and>
   status_report ''white'' 
     [\<lparr>winner = Some ''white'', status = Some ''mate'', opening_col = Some ''A'', variation = None, moves = []\<rparr>,
      \<lparr>winner = Some ''black'', status = Some ''resign'', opening_col = Some ''B'', variation = None, moves = []\<rparr>,
      \<lparr>winner = None, status = Some ''draw'', opening_col = Some ''A'', variation = None, moves = []\<rparr>,
      \<lparr>winner = Some ''white'', status = Some ''mate'', opening_col = Some ''A'', variation = None, moves = []\<rparr>,
      \<lparr>winner = Some ''white'', status = Some ''outoftime'', opening_col = Some ''B'', variation = None, moves = []\<rparr>] = [(''resign'', 1), (''draw'', 1)] \<and>
   (''resign'', 1) \<in> set (status_report ''white'' 
     [\<lparr>winner = Some ''white'', status = Some ''mate'', opening_col = Some ''A'', variation = None, moves = []\<rparr>,
      \<lparr>winner = Some ''black'', status = Some ''resign'', opening_col = Some ''B'', variation = None, moves = []\<rparr>,
      \<lparr>winner = None, status = Some ''draw'', opening_col = Some ''A'', variation = None, moves = []\<rparr>,
      \<lparr>winner = Some ''white'', status = Some ''mate'', opening_col = Some ''A'', variation = None, moves = []\<rparr>,
      \<lparr>winner = Some ''white'', status = Some ''outoftime'', opening_col = Some ''B'', variation = None, moves = []\<rparr>]) \<and>
   status_report ''black'' 
     [\<lparr>winner = Some ''white'', status = Some ''mate'', opening_col = Some ''A'', variation = None, moves = []\<rparr>,
      \<lparr>winner = Some ''black'', status = Some ''resign'', opening_col = Some ''B'', variation = None, moves = []\<rparr>,
      \<lparr>winner = None, status = Some ''draw'', opening_col = Some ''A'', variation = None, moves = []\<rparr>,
      \<lparr>winner = Some ''white'', status = Some ''mate'', opening_col = Some ''A'', variation = None, moves = []\<rparr>,
      \<lparr>winner = Some ''white'', status = Some ''outoftime'', opening_col = Some ''B'', variation = None, moves = []\<rparr>] = [(''mate'', 2), (''draw'', 1), (''outoftime'', 1)] \<and>
   (''mate'', 2) \<in> set (status_report ''black'' 
     [\<lparr>winner = Some ''white'', status = Some ''mate'', opening_col = Some ''A'', variation = None, moves = []\<rparr>,
      \<lparr>winner = Some ''black'', status = Some ''resign'', opening_col = Some ''B'', variation = None, moves = []\<rparr>,
      \<lparr>winner = None, status = Some ''draw'', opening_col = Some ''A'', variation = None, moves = []\<rparr>,
      \<lparr>winner = Some ''white'', status = Some ''mate'', opening_col = Some ''A'', variation = None, moves = []\<rparr>,
      \<lparr>winner = Some ''white'', status = Some ''outoftime'', opening_col = Some ''B'', variation = None, moves = []\<rparr>])"
proof -
  have o: "opening_report 
     [\<lparr>winner = Some ''white'', status = Some ''mate'', opening_col = Some ''A'', variation = None, moves = []\<rparr>,
      \<lparr>winner = Some ''black'', status = Some ''resign'', opening_col = Some ''B'', variation = None, moves = []\<rparr>,
      \<lparr>winner = None, status = Some ''draw'', opening_col = Some ''A'', variation = None, moves = []\<rparr>,
      \<lparr>winner = Some ''white'', status = Some ''mate'', opening_col = Some ''A'', variation = None, moves = []\<rparr>,
      \<lparr>winner = Some ''white'', status = Some ''outoftime'', opening_col = Some ''B'', variation = None, moves = []\<rparr>] = [(''A'', 3), (''B'', 2)]"
    by code_simp
  have w: "status_report ''white'' 
     [\<lparr>winner = Some ''white'', status = Some ''mate'', opening_col = Some ''A'', variation = None, moves = []\<rparr>,
      \<lparr>winner = Some ''black'', status = Some ''resign'', opening_col = Some ''B'', variation = None, moves = []\<rparr>,
      \<lparr>winner = None, status = Some ''draw'', opening_col = Some ''A'', variation = None, moves = []\<rparr>,
      \<lparr>winner = Some ''white'', status = Some ''mate'', opening_col = Some ''A'', variation = None, moves = []\<rparr>,
      \<lparr>winner = Some ''white'', status = Some ''outoftime'', opening_col = Some ''B'', variation = None, moves = []\<rparr>] = [(''resign'', 1), (''draw'', 1)]"
    by code_simp
  have b: "status_report ''black'' 
     [\<lparr>winner = Some ''white'', status = Some ''mate'', opening_col = Some ''A'', variation = None, moves = []\<rparr>,
      \<lparr>winner = Some ''black'', status = Some ''resign'', opening_col = Some ''B'', variation = None, moves = []\<rparr>,
      \<lparr>winner = None, status = Some ''draw'', opening_col = Some ''A'', variation = None, moves = []\<rparr>,
      \<lparr>winner = Some ''white'', status = Some ''mate'', opening_col = Some ''A'', variation = None, moves = []\<rparr>,
      \<lparr>winner = Some ''white'', status = Some ''outoftime'', opening_col = Some ''B'', variation = None, moves = []\<rparr>] = [(''mate'', 2), (''draw'', 1), (''outoftime'', 1)]"
    by code_simp
  have "(''A'', 3) \<in> set (opening_report 
     [\<lparr>winner = Some ''white'', status = Some ''mate'', opening_col = Some ''A'', variation = None, moves = []\<rparr>,
      \<lparr>winner = Some ''black'', status = Some ''resign'', opening_col = Some ''B'', variation = None, moves = []\<rparr>,
      \<lparr>winner = None, status = Some ''draw'', opening_col = Some ''A'', variation = None, moves = []\<rparr>,
      \<lparr>winner = Some ''white'', status = Some ''mate'', opening_col = Some ''A'', variation = None, moves = []\<rparr>,
      \<lparr>winner = Some ''white'', status = Some ''outoftime'', opening_col = Some ''B'', variation = None, moves = []\<rparr>])"
    using reports_count_and_order [of "''A''" 3 "
     [\<lparr>winner = Some ''white'', status = Some ''mate'', opening_col = Some ''A'', variation = None, moves = []\<rparr>,
      \<lparr>winner = Some ''black'', status = Some ''resign'', opening_col = Some ''B'', variation = None, moves = []\<rparr>,
      \<lparr>winner = None, status = Some ''draw'', opening_col = Some ''A'', variation = None, moves = []\<rparr>,
      \<lparr>winner = Some ''white'', status = Some ''mate'', opening_col = Some ''A'', variation = None, moves = []\<rparr>,
      \<lparr>winner = Some ''white'', status = Some ''outoftime'', opening_col = Some ''B'', variation = None, moves = []\<rparr>]"] by simp
  moreover have "(''resign'', 1) \<in> set (status_report ''white'' 
     [\<lparr>winner = Some ''white'', status = Some ''mate'', opening_col = Some ''A'', variation = None, moves = []\<rparr>,
      \<lparr>winner = Some ''black'', status = Some ''resign'', opening_col = Some ''B'', variation = None, moves = []\<rparr>,
      \<lparr>winner = None, status = Some ''draw'', opening_col = Some ''A'', variation = None, moves = []\<rparr>,
      \<lparr>winner = Some ''white'', status = Some ''mate'', opening_col = Some ''A'', variation = None, moves = []\<rparr>,
      \<lparr>winner = Some ''white'', status = Some ''outoftime'', opening_col = Some ''B'', variation = None, moves = []\<rparr>])"
    using reports_count_and_order [of _ _ "
     [\<lparr>winner = Some ''white'', status = Some ''mate'', opening_col = Some ''A'', variation = None, moves = []\<rparr>,
      \<lparr>winner = Some ''black'', status = Some ''resign'', opening_col = Some ''B'', variation = None, moves = []\<rparr>,
      \<lparr>winner = None, status = Some ''draw'', opening_col = Some ''A'', variation = None, moves = []\<rparr>,
      \<lparr>winner = Some ''white'', status = Some ''mate'', opening_col = Some ''A'', variation = None, moves = []\<rparr>,
      \<lparr>winner = Some ''white'', status = Some ''outoftime'', opening_col = Some ''B'', variation = None, moves = []\<rparr>]" "''resign''" 1] by simp
  moreover have "(''mate'', 2) \<in> set (status_report ''black'' 
     [\<lparr>winner = Some ''white'', status = Some ''mate'', opening_col = Some ''A'', variation = None, moves = []\<rparr>,
      \<lparr>winner = Some ''black'', status = Some ''resign'', opening_col = Some ''B'', variation = None, moves = []\<rparr>,
      \<lparr>winner = None, status = Some ''draw'', opening_col = Some ''A'', variation = None, moves = []\<rparr>,
      \<lparr>winner = Some ''white'', status = Some ''mate'', opening_col = Some ''A'', variation = None, moves = []\<rparr>,
      \<lparr>winner = Some ''white'', status = Some ''outoftime'', opening_col = Some ''B'', variation = None, moves = []\<rparr>])"
    using reports_count_and_order [of _ _ "
     [\<lparr>winner = Some ''white'', status = Some ''mate'', opening_col = Some ''A'', variation = None, moves = []\<rparr>,
      \<lparr>winner = Some ''black'', status = Some ''resign'', opening_col = Some ''B'', variation = None, moves = []\<rparr>,
      \<lparr>winner = None, status = Some ''draw'', opening_col = Some ''A'', variation = None, moves = []\<rparr>,
      \<lparr>winner = Some ''white'', status = Some ''mate'', opening_col = Some ''A'', variation = None, moves = []\<rparr>,
      \<lparr>winner = Some ''white'', status = Some ''outoftime'', opening_col = Some ''B'', variation = None, moves = []\<rparr>]" "''mate''" 2] by simp
  ultimately show ?thesis
    using o w b by blast
qed

text \<open>
  C9. For the empty target every game of the table is returned, for every table, every
  colour argument and both values of \<open>shuffle\<close>; so the result is empty only when the
  table is.
\<close>

theorem empty_target_keeps_every_game:
  "given_move_responses df [] color shuffle = df"
proof (cases shuffle)
  case True
  then have s: "shuffle = True" by simp
  have "permutations ([] :: string list) = [[]]"
    by (simp add: permutations_def)
  then show ?thesis
    unfolding s gmr_shuffle
    by (simp add: white_hit_nth black_hit_nth prefix_hit_take)
next
  case False
  then have s: "shuffle = False" by simp
  show ?thesis
    unfolding s gmr_no_shuffle
    by (simp add: white_hit_nth black_hit_nth prefix_hit_take)
qed

text \<open>
  C10. For a colour argument that is neither the string \<open>white\<close> nor the string
  \<open>black\<close> (\<open>None\<close>, or a string such as \<open>White\<close>) the result is the one for \<open>None\<close>:
  a game is kept if and only if some candidate equals its first \<open>N\<close> plies.
\<close>

theorem other_color_compares_prefix:
  assumes "color \<noteq> Some ''white''" and "color \<noteq> Some ''black''"
  shows "given_move_responses df mvs color shuffle = given_move_responses df mvs None shuffle \<and>
         given_move_responses df mvs color shuffle =
           filter (\<lambda>g. \<exists>c. (if shuffle then mset c = mset mvs else c = mvs) \<and>
                           take (length mvs) (moves g) = c) df"
proof -
  have "(if shuffle then mset c = mset mvs else c = mvs) \<and> prefix_hit c x \<longleftrightarrow>
        (if shuffle then mset c = mset mvs else c = mvs) \<and> take (length mvs) x = c" for c x
  proof (cases "if shuffle then mset c = mset mvs else c = mvs")
    case True
    then have "length c = length mvs" by (rule candidate_length)
    then show ?thesis by (simp add: prefix_hit_take)
  next
    case False
    then show ?thesis by simp
  qed
  then have *: "given_move_responses df mvs col shuffle =
           filter (\<lambda>g. \<exists>c. (if shuffle then mset c = mset mvs else c = mvs) \<and>
                           take (length mvs) (moves g) = c) df"
    if "col \<noteq> Some ''white''" "col \<noteq> Some ''black''" for col
    using that by (simp add: gmr_other)
  from * [OF assms] * [of None] show ?thesis by simp
qed

theorem other_color_compares_prefix_witness:
  "Some ''White'' \<noteq> Some ''white'' \<and> Some ''White'' \<noteq> Some ''black'' \<and>
   given_move_responses [\<lparr>winner = None, status = None, opening_col = None, variation = None, moves = [''e4'', ''e5'']\<rparr>,
      \<lparr>winner = None, status = None, opening_col = None, variation = None, moves = [''d4'', ''e4'']\<rparr>]
     [''e4''] (Some ''White'') False =
     [\<lparr>winner = None, status = None, opening_col = None, variation = None, moves = [''e4'', ''e5'']\<rparr>]"
proof -
  have h1: "Some ''White'' \<noteq> Some ''white''" and h2: "Some ''White'' \<noteq> Some ''black''"
    by simp_all
  have "given_move_responses [\<lparr>winner = None, status = None, opening_col = None, variation = None, moves = [''e4'', ''e5'']\<rparr>,
      \<lparr>winner = None, status = None, opening_col = None, variation = None, moves = [''d4'', ''e4'']\<rparr>]
     [''e4''] (Some ''White'') False =
     filter (\<lambda>g. \<exists>c. (if False then mset c = mset [''e4''] else c = [''e4'']) \<and>
                     take (length [''e4'']) (moves g) = c)
     [\<lparr>winner = None, status = None, opening_col = None, variation = None, moves = [''e4'', ''e5'']\<rparr>,
      \<lparr>winner = None, status = None, opening_col = None, variation = None, moves = [''d4'', ''e4'']\<rparr>]"
    using other_color_compares_prefix [OF h1 h2] by (rule conjunct2)
  also have "\<dots> = [\<lparr>winner = None, status = None, opening_col = None, variation = None, moves = [''e4'', ''e5'']\<rparr>]"
    by simp
  finally show ?thesis using h1 h2 by simp
qed

end
